theory Spec2Isabelle
  imports Main
begin

section \<open>Values exchanged with the SwarmUI service\<close>

text \<open>
  The module \<^verbatim>\<open>open_webui/utils/images/swarmui.py\<close> talks JSON over HTTP. What
  \<^verbatim>\<open>resp.json()\<close> hands back is an arbitrary Python object built from
  \<^verbatim>\<open>None\<close>, booleans, numbers, strings, lists and dicts; the same objects
  are what the module returns and what it sends as request bodies. \<open>JNull\<close> stands for
  \<^verbatim>\<open>None\<close>. A dict is an association list in insertion order; a lookup takes
  the first binding of a key. Numbers are the integers (a JSON number with a fraction is
  not represented); strings are lists of \<open>char\<close>.
\<close>

datatype json =
    JNull
  | JBool bool
  | JInt int
  | JStr string
  | JList "json list"
  | JObj "(string \<times> json) list"

text \<open>
  A raised exception, reduced to what the module reads of it: its class name and the
  text \<^verbatim>\<open>str(e)\<close> gives.
\<close>

datatype exn = Exn (exn_class: string) (exn_str: string)

subsection \<open>The Python operations the module applies to JSON values\<close>

definition squote :: string where
  "squote = [CHR 0x27]"

fun type_name :: "json \<Rightarrow> string" where
  "type_name JNull = ''NoneType''"
| "type_name (JBool b) = ''bool''"
| "type_name (JInt i) = ''int''"
| "type_name (JStr s) = ''str''"
| "type_name (JList xs) = ''list''"
| "type_name (JObj kvs) = ''dict''"

text \<open>Truth value of an object, as \<^verbatim>\<open>if x:\<close> and \<^verbatim>\<open>not x\<close> test it.\<close>

fun truthy :: "json \<Rightarrow> bool" where
  "truthy JNull = False"
| "truthy (JBool b) = b"
| "truthy (JInt i) = (i \<noteq> 0)"
| "truthy (JStr s) = (s \<noteq> [])"
| "truthy (JList xs) = (xs \<noteq> [])"
| "truthy (JObj kvs) = (kvs \<noteq> [])"

definition attribute_error :: "json \<Rightarrow> string \<Rightarrow> exn" where
  "attribute_error v attr =
     Exn ''AttributeError''
       (squote @ type_name v @ squote @ '' object has no attribute '' @ squote @ attr @ squote)"

definition type_error :: "string \<Rightarrow> exn" where
  "type_error msg = Exn ''TypeError'' msg"

text \<open>\<^verbatim>\<open>s.startswith(p)\<close> on strings.\<close>

definition startswith :: "string \<Rightarrow> string \<Rightarrow> bool" where
  "startswith s p = (take (length p) s = p)"

text \<open>\<^verbatim>\<open>sub in s\<close> on strings: \<open>sub\<close> occurs in \<open>s\<close> as a contiguous run.\<close>

fun str_contains :: "string \<Rightarrow> string \<Rightarrow> bool" where
  "str_contains [] sub = (sub = [])"
| "str_contains (c # cs) sub = (startswith (c # cs) sub \<or> str_contains cs sub)"

text \<open>
  \<^verbatim>\<open>d.get(k, default)\<close>: only a dict has the method; on any other object the
  attribute access raises \<^verbatim>\<open>AttributeError\<close>.
\<close>

fun py_get :: "json \<Rightarrow> string \<Rightarrow> json \<Rightarrow> exn + json" where
  "py_get (JObj kvs) k dflt = Inr (case map_of kvs k of None \<Rightarrow> dflt | Some v \<Rightarrow> v)"
| "py_get v k dflt = Inl (attribute_error v ''get'')"

text \<open>
  \<^verbatim>\<open>k in x\<close> for a string \<open>k\<close>: key membership on a dict, element membership on
  a list, substring test on a string, \<^verbatim>\<open>TypeError\<close> on anything else.
\<close>

fun py_contains :: "string \<Rightarrow> json \<Rightarrow> exn + bool" where
  "py_contains k (JObj kvs) = Inr (map_of kvs k \<noteq> None)"
| "py_contains k (JList xs) = Inr (JStr k \<in> set xs)"
| "py_contains k (JStr s) = Inr (str_contains s k)"
| "py_contains k v =
     Inl (type_error (''argument of type '' @ squote @ type_name v @ squote @ '' is not iterable''))"

text \<open>\<^verbatim>\<open>x[k]\<close> for a string \<open>k\<close>.\<close>

fun py_getitem :: "json \<Rightarrow> string \<Rightarrow> exn + json" where
  "py_getitem (JObj kvs) k =
     (case map_of kvs k of
        None \<Rightarrow> Inl (Exn ''KeyError'' (squote @ k @ squote))
      | Some v \<Rightarrow> Inr v)"
| "py_getitem (JList xs) k =
     Inl (type_error ''list indices must be integers or slices, not str'')"
| "py_getitem (JStr s) k =
     Inl (type_error (''string indices must be integers, not '' @ squote @ ''str'' @ squote))"
| "py_getitem v k =
     Inl (type_error (squote @ type_name v @ squote @ '' object is not subscriptable''))"

text \<open>
  The items a \<^verbatim>\<open>for\<close> loop draws from an object: the elements of a list, the
  characters of a string, the keys of a dict; anything else is not iterable.
\<close>

fun py_iter :: "json \<Rightarrow> exn + json list" where
  "py_iter (JList xs) = Inr xs"
| "py_iter (JStr s) = Inr (map (\<lambda>c. JStr [c]) s)"
| "py_iter (JObj kvs) = Inr (map JStr (remdups (map fst kvs)))"
| "py_iter v = Inl (type_error (squote @ type_name v @ squote @ '' object is not iterable''))"

text \<open>
  \<^verbatim>\<open>d[k] = v\<close> on a dict: an existing key keeps its place and takes the new
  value, a new key goes to the end.
\<close>

fun dict_set :: "('k \<times> 'v) list \<Rightarrow> 'k \<Rightarrow> 'v \<Rightarrow> ('k \<times> 'v) list" where
  "dict_set [] k v = [(k, v)]"
| "dict_set ((k', v') # d) k v =
     (if k' = k then (k, v) # d else (k', v') # dict_set d k v)"

text \<open>Spreading the items of \<open>e\<close> into the dict \<open>d\<close>, in order (\<^verbatim>\<open>{..., **e}\<close>).\<close>

definition dict_update :: "('k \<times> 'v) list \<Rightarrow> ('k \<times> 'v) list \<Rightarrow> ('k \<times> 'v) list" where
  "dict_update d e = foldl (\<lambda>acc kv. dict_set acc (fst kv) (snd kv)) d e"

definition has_key :: "json \<Rightarrow> string \<Rightarrow> bool" where
  "has_key v k = (case v of JObj kvs \<Rightarrow> map_of kvs k \<noteq> None | _ \<Rightarrow> False)"

definition lookup :: "json \<Rightarrow> string \<Rightarrow> json option" where
  "lookup v k = (case v of JObj kvs \<Rightarrow> map_of kvs k | _ \<Rightarrow> None)"

section \<open>The HTTP collaborator\<close>

text \<open>
  A request as \<^verbatim>\<open>requests.post(url, headers=..., json=..., timeout=...)\<close>
  issues it. \<open>req_timeout\<close> is \<open>None\<close> where the call passes no timeout.
\<close>

record request =
  req_url :: string
  req_headers :: "(string \<times> string) list"
  req_json :: json
  req_timeout :: "nat option"

text \<open>
  A response object of the \<^verbatim>\<open>requests\<close> library, reduced to what the two
  methods the module calls on it depend on: the HTTP status code, the text of the
  \<^verbatim>\<open>HTTPError\<close> that \<^verbatim>\<open>raise_for_status()\<close> raises when it raises, and
  what \<^verbatim>\<open>json()\<close> does, which either raises because the body does not parse
  (\<open>Inl\<close>, with the text of the exception) or returns the parsed body.
\<close>

datatype response = Response (status_code: nat) (error_text: string) (body: "string + json")

text \<open>
  \<^verbatim>\<open>raise_for_status()\<close> raises for the client and server error codes only, 400
  to 599, as \<^verbatim>\<open>requests\<close> defines it; any other code, such as 100, 204 or 300,
  passes. \<open>status_error\<close> is the text of the exception it raises, if it raises.
\<close>

definition refused_status :: "nat \<Rightarrow> bool" where
  "refused_status code = (400 \<le> code \<and> code < 600)"

definition status_error :: "response \<Rightarrow> string option" where
  "status_error resp =
     (if refused_status (status_code resp) then Some (error_text resp) else None)"

text \<open>
  What one call of \<^verbatim>\<open>requests.post\<close> does: it raises (connection refused,
  timeout, ...) or returns a response.
\<close>

datatype outcome = Raises string | Returns response

text \<open>
  The remote side is an arbitrary script: \<open>srv i\<close> is the outcome of the \<open>i\<close>-th HTTP
  exchange of a run, counted from 0. The trace is the list of the requests sent so far,
  oldest first. A computation takes the trace and returns either a raised exception
  (\<open>Inl\<close>) or a value (\<open>Inr\<close>), together with the extended trace.
\<close>

type_synonym server = "nat \<Rightarrow> outcome"
type_synonym trace = "request list"
type_synonym 'a io = "trace \<Rightarrow> (exn + 'a) \<times> trace"

definition io_return :: "'a \<Rightarrow> 'a io" where
  "io_return v = (\<lambda>tr. (Inr v, tr))"

definition io_lift :: "exn + 'a \<Rightarrow> 'a io" where
  "io_lift r = (\<lambda>tr. (r, tr))"

definition io_bind :: "'a io \<Rightarrow> ('a \<Rightarrow> 'b io) \<Rightarrow> 'b io" where
  "io_bind m f = (\<lambda>tr. case m tr of (Inl e, tr') \<Rightarrow> (Inl e, tr') | (Inr v, tr') \<Rightarrow> f v tr')"

text \<open>\<^verbatim>\<open>try: m  except Exception as e: h(e)\<close>.\<close>

definition try_except :: "'a io \<Rightarrow> (exn \<Rightarrow> 'a io) \<Rightarrow> 'a io" where
  "try_except m h = (\<lambda>tr. case m tr of (Inl e, tr') \<Rightarrow> h e tr' | (Inr v, tr') \<Rightarrow> (Inr v, tr'))"

definition requests_post :: "server \<Rightarrow> request \<Rightarrow> response io" where
  "requests_post srv req =
     (\<lambda>tr. (case srv (length tr) of
               Raises msg \<Rightarrow> Inl (Exn ''RequestException'' msg)
             | Returns resp \<Rightarrow> Inr resp,
             tr @ [req]))"

definition raise_for_status :: "response \<Rightarrow> exn + unit" where
  "raise_for_status resp =
     (case status_error resp of None \<Rightarrow> Inr () | Some msg \<Rightarrow> Inl (Exn ''HTTPError'' msg))"

definition resp_json :: "response \<Rightarrow> exn + json" where
  "resp_json resp =
     (case body resp of Inl msg \<Rightarrow> Inl (Exn ''JSONDecodeError'' msg) | Inr v \<Rightarrow> Inr v)"

section \<open>Session acquisition\<close>

text \<open>
  \<^verbatim>\<open>get_swarmui_session_id(base_url, api_key)\<close>, lines 85 to 102: the headers are
  built outside the \<^verbatim>\<open>try\<close>; the POST, the status check, the parse and
  \<^verbatim>\<open>data.get("session_id")\<close> are inside it, and the handler returns
  \<^verbatim>\<open>None\<close>.
\<close>

definition get_swarmui_session_id :: "server \<Rightarrow> string \<Rightarrow> string \<Rightarrow> json io" where
  "get_swarmui_session_id srv base_url api_key =
     (let headers = [(''User-Agent'', ''Mozilla/5.0'')];
          headers = (if api_key \<noteq> []
                     then dict_set headers ''Authorization'' (''Bearer '' @ api_key)
                     else headers)
      in try_except
           (io_bind (requests_post srv
                       \<lparr>req_url = base_url @ ''/API/GetNewSession'',
                        req_headers = headers,
                        req_json = JObj [],
                        req_timeout = Some 20\<rparr>) (\<lambda>resp.
            io_bind (io_lift (raise_for_status resp)) (\<lambda>_.
            io_bind (io_lift (resp_json resp)) (\<lambda>data.
            io_lift (py_get data ''session_id'' JNull)))))
           (\<lambda>e. io_return JNull))"

section \<open>Image generation\<close>

text \<open>
  \<^verbatim>\<open>class SwarmUIGenerateImageForm(BaseModel)\<close>, lines 74 to 82. The fields carry
  the prefix \<open>form_\<close> (the source's \<^verbatim>\<open>n\<close>, \<^verbatim>\<open>model\<close> and the like
  would capture variable names).
\<close>

record SwarmUIGenerateImageForm =
  form_prompt :: string
  form_negative_prompt :: "string option"
  form_width :: int
  form_height :: int
  form_n :: int
  form_steps :: "int option"
  form_seed :: "int option"
  form_model :: "string option"

definition opt_int :: "int option \<Rightarrow> json" where
  "opt_int x = (case x of None \<Rightarrow> JNull | Some i \<Rightarrow> JInt i)"

text \<open>
  Lines 125 to 144: \<^verbatim>\<open>raw_input\<close> is filled key by key, then \<^verbatim>\<open>data\<close>
  is the dict literal \<^verbatim>\<open>{"images": ..., "session_id": ..., **{k: v for k, v in
  raw_input.items() if k != "session_id"}}\<close>.
\<close>

definition generation_data :: "string \<Rightarrow> SwarmUIGenerateImageForm \<Rightarrow> json \<Rightarrow> (string \<times> json) list" where
  "generation_data model payload session_id =
     (let raw_input =
            [(''prompt'', JStr (form_prompt payload)),
             (''width'', JInt (form_width payload)),
             (''height'', JInt (form_height payload)),
             (''steps'', opt_int (form_steps payload)),
             (''images'', JInt (form_n payload)),
             (''session_id'', session_id)];
          raw_input = (case form_negative_prompt payload of
                         None \<Rightarrow> raw_input
                       | Some np \<Rightarrow> if np \<noteq> []
                                   then dict_set raw_input ''negative_prompt'' (JStr np)
                                   else raw_input);
          raw_input = (case form_seed payload of
                         None \<Rightarrow> raw_input
                       | Some sd \<Rightarrow> dict_set raw_input ''seed'' (JInt sd));
          raw_input = (if model \<noteq> [] then dict_set raw_input ''model'' (JStr model)
                       else raw_input)
      in dict_update
           [(''images'', JInt (form_n payload)), (''session_id'', session_id)]
           (filter (\<lambda>kv. fst kv \<noteq> ''session_id'') raw_input))"

text \<open>
  The loop of lines 169 to 175 over the items of the image list, \<open>images\<close> being the
  list built so far. \<^verbatim>\<open>img_path.startswith\<close> exists on strings only; on any
  other item the attribute access raises and the loop is left.
\<close>

fun collect_images :: "string \<Rightarrow> json list \<Rightarrow> json list \<Rightarrow> exn + json list" where
  "collect_images base_url [] images = Inr images"
| "collect_images base_url (img_path # rest) images =
     (case img_path of
        JStr p \<Rightarrow>
          if startswith p ''data:''
          then collect_images base_url rest (images @ [JObj [(''url'', JStr p)]])
          else
            (let img_url = (if \<not> startswith p ''http'' then base_url @ ''/'' @ p else p)
             in collect_images base_url rest (images @ [JObj [(''url'', JStr img_url)]]))
      | _ \<Rightarrow> Inl (attribute_error img_path ''startswith''))"

text \<open>
  The test of line 155, \<^verbatim>\<open>"error_id" in result and result["error_id"] ==
  "invalid_session_id"\<close>: the right operand is evaluated only when the left one is true.
\<close>

definition invalid_session :: "json \<Rightarrow> exn + bool" where
  "invalid_session result =
     (case py_contains ''error_id'' result of
        Inl e \<Rightarrow> Inl e
      | Inr False \<Rightarrow> Inr False
      | Inr True \<Rightarrow>
          (case py_getitem result ''error_id'' of
             Inl e \<Rightarrow> Inl e
           | Inr v \<Rightarrow> Inr (v = JStr ''invalid_session_id'')))"

definition generation_request :: "string \<Rightarrow> (string \<times> string) list \<Rightarrow> (string \<times> json) list \<Rightarrow> request" where
  "generation_request base_url headers data =
     \<lparr>req_url = base_url @ ''/API/GenerateText2Image'',
      req_headers = headers,
      req_json = JObj data,
      req_timeout = Some 120\<rparr>"

text \<open>
  \<^verbatim>\<open>swarmui_generate_image(model, payload, client_id, base_url, api_key)\<close>, lines
  105 to 179. The first session acquisition and the payload construction are outside the
  \<^verbatim>\<open>try\<close>. Inside it, the branch of line 155 either returns early (\<open>Inl\<close> of the
  returned dict) or leaves a \<^verbatim>\<open>result\<close> for the loop (\<open>Inr\<close>).
\<close>

definition swarmui_generate_image ::
  "server \<Rightarrow> string \<Rightarrow> SwarmUIGenerateImageForm \<Rightarrow> string \<Rightarrow> string \<Rightarrow> string \<Rightarrow> json io" where
  "swarmui_generate_image srv model payload client_id base_url api_key =
     (let headers = [(''User-Agent'', ''Mozilla/5.0'')];
          headers = (if api_key \<noteq> []
                     then dict_set headers ''Authorization'' (''Bearer '' @ api_key)
                     else headers)
      in io_bind (get_swarmui_session_id srv base_url api_key) (\<lambda>session_id.
           if \<not> truthy session_id
           then io_return (JObj [(''error'', JStr ''Could not obtain SwarmUI session id'')])
           else
             (let data = generation_data model payload session_id
              in try_except
                   (io_bind (requests_post srv (generation_request base_url headers data)) (\<lambda>resp.
                    io_bind (io_lift (raise_for_status resp)) (\<lambda>_.
                    io_bind (io_lift (resp_json resp)) (\<lambda>result.
                    io_bind (io_lift (invalid_session result)) (\<lambda>expired.
                    io_bind
                      (if expired
                       then
                         io_bind (get_swarmui_session_id srv base_url api_key) (\<lambda>session_id.
                           if \<not> truthy session_id
                           then io_return
                                  (Inl (JObj [(''error'',
                                     JStr ''Could not obtain SwarmUI session id (retry)'')]))
                           else
                             (let data = dict_set data ''session_id'' session_id
                              in io_bind (requests_post srv
                                            (generation_request base_url headers data)) (\<lambda>resp.
                                 io_bind (io_lift (raise_for_status resp)) (\<lambda>_.
                                 io_bind (io_lift (resp_json resp)) (\<lambda>result.
                                 io_return (Inr result))))))
                       else io_return (Inr result)) (\<lambda>r.
                    case r of
                      Inl returned \<Rightarrow> io_return returned
                    | Inr result \<Rightarrow>
                        io_bind (io_lift (py_get result ''images'' (JList []))) (\<lambda>image_list.
                        io_bind (io_lift (py_iter image_list)) (\<lambda>items.
                        io_bind (io_lift (collect_images base_url items [])) (\<lambda>images.
                        io_return (JObj [(''data'', JList images)]))))))))))
                   (\<lambda>e. io_return (JObj [(''error'', JStr (exn_str e))])))))"

section \<open>Listing and selecting models\<close>

text \<open>
  \<^verbatim>\<open>list_swarmui_models\<close>, lines 182 to 205. The source's \<^verbatim>\<open>sortBy\<close>,
  \<^verbatim>\<open>allowRemote\<close> and \<^verbatim>\<open>sortReverse\<close> are written in lower case here.
\<close>

definition list_swarmui_models ::
  "server \<Rightarrow> string \<Rightarrow> string \<Rightarrow> string \<Rightarrow> int \<Rightarrow> string \<Rightarrow> string \<Rightarrow> bool \<Rightarrow> bool \<Rightarrow> json io" where
  "list_swarmui_models srv base_url api_key path depth subtype sort_by allow_remote sort_reverse =
     (let url = base_url @ ''/API/ListModels'';
          payload = JObj [(''path'', JStr path),
                          (''depth'', JInt depth),
                          (''subtype'', JStr subtype),
                          (''sortBy'', JStr sort_by),
                          (''allowRemote'', JBool allow_remote),
                          (''sortReverse'', JBool sort_reverse)];
          headers = [(''Authorization'', ''Bearer '' @ api_key),
                     (''Content-Type'', ''application/json'')]
      in try_except
           (io_bind (requests_post srv
                       \<lparr>req_url = url, req_headers = headers,
                        req_json = payload, req_timeout = None\<rparr>) (\<lambda>response.
            io_bind (io_lift (raise_for_status response)) (\<lambda>_.
            io_bind (io_lift (resp_json response)) (\<lambda>data.
            io_lift (py_get data ''files'' (JList []))))))
           (\<lambda>e. io_return (JList [])))"

text \<open>\<^verbatim>\<open>select_swarmui_model\<close>, lines 208 to 226.\<close>

definition select_swarmui_model ::
  "server \<Rightarrow> string \<Rightarrow> string \<Rightarrow> string \<Rightarrow> string option \<Rightarrow> json io" where
  "select_swarmui_model srv base_url api_key model_path backend_id =
     (let url = base_url @ ''/API/SelectModel'';
          payload = JObj [(''model'', JStr model_path),
                          (''backendId'', (case backend_id of None \<Rightarrow> JNull | Some b \<Rightarrow> JStr b))];
          headers = [(''Authorization'', ''Bearer '' @ api_key),
                     (''Content-Type'', ''application/json'')]
      in try_except
           (io_bind (requests_post srv
                       \<lparr>req_url = url, req_headers = headers,
                        req_json = payload, req_timeout = None\<rparr>) (\<lambda>response.
            io_bind (io_lift (raise_for_status response)) (\<lambda>_.
            io_bind (io_lift (resp_json response)) (\<lambda>data.
            io_lift (py_get data ''success'' (JBool False))))))
           (\<lambda>e. io_return (JBool False)))"

section \<open>Reading a trace\<close>

definition session_acquisitions :: "string \<Rightarrow> trace \<Rightarrow> nat" where
  "session_acquisitions base_url tr =
     length (filter (\<lambda>r. req_url r = base_url @ ''/API/GetNewSession'') tr)"

definition generation_posts :: "string \<Rightarrow> trace \<Rightarrow> nat" where
  "generation_posts base_url tr =
     length (filter (\<lambda>r. req_url r = base_url @ ''/API/GenerateText2Image'') tr)"

text \<open>The value of a header of a request, if the request carries it.\<close>

definition header :: "request \<Rightarrow> string \<Rightarrow> string option" where
  "header r name = map_of (req_headers r) name"

section \<open>Views of a run used in the proofs\<close>

text \<open>
  Nothing below is part of the module: these definitions name pieces of a run so that the
  lemmas can speak of them. Each is tied to the functions above by a lemma.
\<close>

text \<open>The headers that lines 87 to 89 and 117 to 119 build.\<close>

definition expected_headers :: "string \<Rightarrow> (string \<times> string) list" where
  "expected_headers api_key =
     (if api_key \<noteq> []
      then [(''User-Agent'', ''Mozilla/5.0''), (''Authorization'', ''Bearer '' @ api_key)]
      else [(''User-Agent'', ''Mozilla/5.0'')])"

definition session_request :: "string \<Rightarrow> string \<Rightarrow> request" where
  "session_request base_url api_key =
     \<lparr>req_url = base_url @ ''/API/GetNewSession'',
      req_headers = expected_headers api_key,
      req_json = JObj [],
      req_timeout = Some 20\<rparr>"

text \<open>
  What the sequence \<^verbatim>\<open>requests.post\<close>, \<^verbatim>\<open>raise_for_status\<close>,
  \<^verbatim>\<open>json\<close> yields for one outcome of the exchange.
\<close>

definition fetch_json :: "outcome \<Rightarrow> exn + json" where
  "fetch_json out =
     (case out of
        Raises msg \<Rightarrow> Inl (Exn ''RequestException'' msg)
      | Returns resp \<Rightarrow>
          (case raise_for_status resp of Inl e \<Rightarrow> Inl e | Inr _ \<Rightarrow> resp_json resp))"

definition session_of :: "outcome \<Rightarrow> json" where
  "session_of out =
     (case fetch_json out of
        Inl e \<Rightarrow> JNull
      | Inr data \<Rightarrow> (case py_get data ''session_id'' JNull of Inl e \<Rightarrow> JNull | Inr v \<Rightarrow> v))"

definition error_result :: "exn \<Rightarrow> json" where
  "error_result e = JObj [(''error'', JStr (exn_str e))]"

definition images_result :: "string \<Rightarrow> json \<Rightarrow> json" where
  "images_result base_url result =
     (case py_get result ''images'' (JList []) of
        Inl e \<Rightarrow> error_result e
      | Inr image_list \<Rightarrow>
          (case py_iter image_list of
             Inl e \<Rightarrow> error_result e
           | Inr items \<Rightarrow>
               (case collect_images base_url items [] of
                  Inl e \<Rightarrow> error_result e
                | Inr images \<Rightarrow> JObj [(''data'', JList images)])))"

text \<open>
  The failures the module catches: the POST raises, \<^verbatim>\<open>raise_for_status\<close> raises
  (a status from 400 to 599), or the body does not parse.
\<close>

definition request_fails :: "outcome \<Rightarrow> bool" where
  "request_fails out =
     (case out of
        Raises msg \<Rightarrow> True
      | Returns resp \<Rightarrow> refused_status (status_code resp) \<or> isl (body resp))"

text \<open>
  The specification's words, for comparison: a successful status is a 2xx status, and a
  transport failure is an exception from the POST, a non-2xx status, or an unparseable
  body.
\<close>

definition success_status :: "nat \<Rightarrow> bool" where
  "success_status code = (200 \<le> code \<and> code < 300)"

definition transport_failure :: "outcome \<Rightarrow> bool" where
  "transport_failure out =
     (case out of
        Raises msg \<Rightarrow> True
      | Returns resp \<Rightarrow> \<not> success_status (status_code resp) \<or> isl (body resp))"

text \<open>
  Concrete servers for the examples: \<open>scripted outs\<close> answers the \<open>i\<close>-th exchange with
  the \<open>i\<close>-th outcome of the list and refuses the connection afterwards; \<open>ok v\<close> is a
  response with status 200 and the parsed body \<open>v\<close>.
\<close>

definition scripted :: "outcome list \<Rightarrow> server" where
  "scripted outs i = (if i < length outs then outs ! i else Raises ''connection refused'')"

definition ok :: "json \<Rightarrow> outcome" where
  "ok v = Returns (Response 200 ''OK'' (Inr v))"

definition example_form :: SwarmUIGenerateImageForm where
  "example_form =
     \<lparr>form_prompt = ''cat'', form_negative_prompt = None, form_width = 512,
      form_height = 512, form_n = 1, form_steps = None, form_seed = None,
      form_model = None\<rparr>"

text \<open>The body SwarmUI sends for a session it no longer knows.\<close>

definition expired_body :: json where
  "expired_body =
     JObj [(''error'', JStr ''Invalid session ID''),
           (''error_id'', JStr ''invalid_session_id'')]"

section \<open>The combinators\<close>

lemma return_app: "io_return v tr = (Inr v, tr)"
  by (simp add: io_return_def)

lemma bind_return_fun: "io_bind (io_return v) f = f v"
  by (simp add: io_return_def io_bind_def)

lemma bind_lift:
  "io_bind (io_lift r) f tr = (case r of Inl e \<Rightarrow> (Inl e, tr) | Inr v \<Rightarrow> f v tr)"
  by (simp add: io_lift_def io_bind_def)

lemma bind_if:
  "io_bind (if c then m1 else m2) f = (if c then io_bind m1 f else io_bind m2 f)"
  by simp

lemma bind_assoc: "io_bind (io_bind m f) g = io_bind m (\<lambda>x. io_bind (f x) g)"
  by (auto simp add: io_bind_def fun_eq_iff split: prod.splits sum.splits)

lemma bind_fetch:
  "io_bind (requests_post srv req) (\<lambda>resp.
     io_bind (io_lift (raise_for_status resp)) (\<lambda>_.
     io_bind (io_lift (resp_json resp)) f)) tr =
   (case fetch_json (srv (length tr)) of
      Inl e \<Rightarrow> (Inl e, tr @ [req])
    | Inr result \<Rightarrow> f result (tr @ [req]))"
  by (simp add: io_bind_def io_lift_def requests_post_def fetch_json_def
      split: outcome.splits sum.splits)

section \<open>Session acquisition: what a call returns and sends\<close>

lemma headers_eq:
  "(if api_key \<noteq> []
    then dict_set [(''User-Agent'', ''Mozilla/5.0'')] ''Authorization'' (''Bearer '' @ api_key)
    else [(''User-Agent'', ''Mozilla/5.0'')]) = expected_headers api_key"
  by (simp add: expected_headers_def)

lemma session_run:
  "get_swarmui_session_id srv base_url api_key tr =
     (Inr (session_of (srv (length tr))), tr @ [session_request base_url api_key])"
  unfolding get_swarmui_session_id_def Let_def headers_eq
  by (simp add: io_return_def io_lift_def io_bind_def try_except_def requests_post_def
      session_request_def session_of_def fetch_json_def split: outcome.splits sum.splits)

lemma bind_session:
  "io_bind (get_swarmui_session_id srv base_url api_key) f tr =
     f (session_of (srv (length tr))) (tr @ [session_request base_url api_key])"
  by (simp add: io_bind_def session_run)

section \<open>Session acquisition never raises\<close>

text \<open>
  Claim C7, as the code has it. \<^verbatim>\<open>get_swarmui_session_id\<close> never raises to its
  caller: whatever the server does, the call returns a value. It returns
  \<^verbatim>\<open>None\<close> when the POST raises, when the status is one that
  \<^verbatim>\<open>raise_for_status\<close> refuses (400 to 599), when the body does not parse, and
  when the parsed body has no \<^verbatim>\<open>session_id\<close> field (\<open>lookup\<close> is \<open>None\<close> also
  for a body that is not a dict). In every other case, so also for a status such as 100
  or 300 that is neither a success nor refused, it returns the field's value.
\<close>

theorem session_id_never_raises:
  "(\<exists>v. fst (get_swarmui_session_id srv base_url api_key tr) = Inr v)
   \<and> ((\<exists>msg. srv (length tr) = Raises msg) \<longrightarrow>
        fst (get_swarmui_session_id srv base_url api_key tr) = Inr JNull)
   \<and> (\<forall>resp. srv (length tr) = Returns resp \<longrightarrow>
        (refused_status (status_code resp) \<longrightarrow>
           fst (get_swarmui_session_id srv base_url api_key tr) = Inr JNull)
      \<and> (\<not> refused_status (status_code resp) \<longrightarrow>
           ((\<exists>msg. body resp = Inl msg) \<longrightarrow>
              fst (get_swarmui_session_id srv base_url api_key tr) = Inr JNull)
         \<and> (\<forall>data. body resp = Inr data \<longrightarrow> lookup data ''session_id'' = None \<longrightarrow>
              fst (get_swarmui_session_id srv base_url api_key tr) = Inr JNull)
         \<and> (\<forall>data sid. body resp = Inr data \<longrightarrow> lookup data ''session_id'' = Some sid \<longrightarrow>
              fst (get_swarmui_session_id srv base_url api_key tr) = Inr sid)))"
proof -
  have val: "fst (get_swarmui_session_id srv base_url api_key tr) = Inr (session_of (srv (length tr)))"
    by (simp add: session_run)
  have none: "\<And>data. lookup data ''session_id'' = None \<Longrightarrow>
      (case py_get data ''session_id'' JNull of Inl e \<Rightarrow> JNull | Inr v \<Rightarrow> v) = JNull"
    by (simp add: lookup_def split: json.splits)
  have some: "\<And>data sid. lookup data ''session_id'' = Some sid \<Longrightarrow>
      (case py_get data ''session_id'' JNull of Inl e \<Rightarrow> JNull | Inr v \<Rightarrow> v) = sid"
    by (simp add: lookup_def split: json.splits)
  show ?thesis
    unfolding val
    by (auto simp add: session_of_def fetch_json_def raise_for_status_def resp_json_def
        status_error_def none some)
qed

theorem session_id_never_raises_witness:
  "fst (get_swarmui_session_id (scripted [Raises ''timeout''])
          ''http://swarm'' ''key'' []) = Inr JNull
   \<and> fst (get_swarmui_session_id
          (scripted [Returns (Response 500 ''500 Server Error''
                               (Inr (JObj [(''session_id'', JStr ''s1'')])))])
          ''http://swarm'' ''key'' []) = Inr JNull
   \<and> fst (get_swarmui_session_id
          (scripted [Returns (Response 200 ''OK'' (Inl ''Expecting value''))])
          ''http://swarm'' ''key'' []) = Inr JNull
   \<and> fst (get_swarmui_session_id (scripted [ok (JObj [(''version'', JStr ''0.9'')])])
          ''http://swarm'' ''key'' []) = Inr JNull
   \<and> fst (get_swarmui_session_id (scripted [ok (JObj [(''session_id'', JStr ''s1'')])])
          ''http://swarm'' ''key'' []) = Inr (JStr ''s1'')"
proof -
  have a: "scripted [Raises ''timeout''] (length ([]::trace)) = Raises ''timeout''"
    by (simp add: scripted_def)
  have b: "scripted [Returns (Response 500 ''500 Server Error''
                               (Inr (JObj [(''session_id'', JStr ''s1'')])))] (length ([]::trace))
      = Returns (Response 500 ''500 Server Error'' (Inr (JObj [(''session_id'', JStr ''s1'')])))"
    by (simp add: scripted_def)
  have c: "scripted [Returns (Response 200 ''OK'' (Inl ''Expecting value''))] (length ([]::trace))
      = Returns (Response 200 ''OK'' (Inl ''Expecting value''))"
    by (simp add: scripted_def)
  have d: "scripted [ok (JObj [(''version'', JStr ''0.9'')])] (length ([]::trace))
      = Returns (Response 200 ''OK'' (Inr (JObj [(''version'', JStr ''0.9'')])))"
    by (simp add: scripted_def ok_def)
  have e: "scripted [ok (JObj [(''session_id'', JStr ''s1'')])] (length ([]::trace))
      = Returns (Response 200 ''OK'' (Inr (JObj [(''session_id'', JStr ''s1'')])))"
    by (simp add: scripted_def ok_def)
  have l1: "lookup (JObj [(''version'', JStr ''0.9'')]) ''session_id'' = None"
    by (simp add: lookup_def)
  have l2: "lookup (JObj [(''session_id'', JStr ''s1'')]) ''session_id'' = Some (JStr ''s1'')"
    by (simp add: lookup_def)
  have r5: "refused_status 500" and r2: "\<not> refused_status 200"
    by (simp_all add: refused_status_def)
  show ?thesis
    using session_id_never_raises [where srv = "scripted [Raises ''timeout'']" and tr = "[]"
        and base_url = "''http://swarm''" and api_key = "''key''"]
      session_id_never_raises [where srv = "scripted [Returns (Response 500 ''500 Server Error''
                               (Inr (JObj [(''session_id'', JStr ''s1'')])))]" and tr = "[]"
        and base_url = "''http://swarm''" and api_key = "''key''"]
      session_id_never_raises [where srv = "scripted [Returns (Response 200 ''OK'' (Inl ''Expecting value''))]" and tr = "[]"
        and base_url = "''http://swarm''" and api_key = "''key''"]
      session_id_never_raises [where srv = "scripted [ok (JObj [(''version'', JStr ''0.9'')])]" and tr = "[]"
        and base_url = "''http://swarm''" and api_key = "''key''"]
      session_id_never_raises [where srv = "scripted [ok (JObj [(''session_id'', JStr ''s1'')])]" and tr = "[]"
        and base_url = "''http://swarm''" and api_key = "''key''"]
    unfolding a b c d e using l1 l2 r5 r2 by simp
qed

text \<open>
  The claim as the specification words it asks for \<^verbatim>\<open>None\<close> on any non-success
  status. The status 300 is not a success, \<^verbatim>\<open>raise_for_status\<close> lets it pass,
  and the call returns the identifier of the body.
\<close>

theorem session_id_status_counterexample:
  "\<not> success_status 300
   \<and> fst (get_swarmui_session_id
          (scripted [Returns (Response 300 ''Multiple Choices''
                               (Inr (JObj [(''session_id'', JStr ''s1'')])))])
          ''http://swarm'' ''key'' []) = Inr (JStr ''s1'')"
  by (simp add: success_status_def session_run scripted_def session_of_def fetch_json_def
      raise_for_status_def resp_json_def status_error_def refused_status_def)

section \<open>Image generation: the seven ways through a call\<close>

text \<open>
  A call started on the empty trace makes the exchanges 0 (session), 1 (generation),
  2 (session again) and 3 (generation again), as far as it gets. Each lemma fixes how the
  tests of the function come out and gives the returned value and the trace.
\<close>

lemmas run_simps = try_except_def bind_assoc bind_if bind_return_fun bind_fetch bind_lift
  bind_session return_app numeral_2_eq_2 numeral_3_eq_3

lemma generate_no_session:
  assumes "\<not> truthy (session_of (srv 0))"
  shows "swarmui_generate_image srv model payload client_id base_url api_key [] =
          (Inr (JObj [(''error'', JStr ''Could not obtain SwarmUI session id'')]),
           [session_request base_url api_key])"
  unfolding swarmui_generate_image_def Let_def headers_eq
  using assms by (simp add: run_simps)

lemma generate_post_fails:
  assumes "truthy (session_of (srv 0))" and "fetch_json (srv 1) = Inl e"
  shows "swarmui_generate_image srv model payload client_id base_url api_key [] =
          (Inr (error_result e),
           [session_request base_url api_key,
            generation_request base_url (expected_headers api_key)
              (generation_data model payload (session_of (srv 0)))])"
  unfolding swarmui_generate_image_def Let_def headers_eq
  using assms by (simp add: run_simps error_result_def)

lemma generate_test_raises:
  assumes "truthy (session_of (srv 0))" and "fetch_json (srv 1) = Inr result"
    and "invalid_session result = Inl e"
  shows "swarmui_generate_image srv model payload client_id base_url api_key [] =
          (Inr (error_result e),
           [session_request base_url api_key,
            generation_request base_url (expected_headers api_key)
              (generation_data model payload (session_of (srv 0)))])"
  unfolding swarmui_generate_image_def Let_def headers_eq
  using assms by (simp add: run_simps error_result_def)

lemma generate_first_try:
  assumes "truthy (session_of (srv 0))" and "fetch_json (srv 1) = Inr result"
    and "invalid_session result = Inr False"
  shows "swarmui_generate_image srv model payload client_id base_url api_key [] =
          (Inr (images_result base_url result),
           [session_request base_url api_key,
            generation_request base_url (expected_headers api_key)
              (generation_data model payload (session_of (srv 0)))])"
  unfolding swarmui_generate_image_def Let_def headers_eq
  using assms by (simp add: run_simps error_result_def images_result_def split: sum.splits)

lemma generate_retry_no_session:
  assumes "truthy (session_of (srv 0))" and "fetch_json (srv 1) = Inr result"
    and "invalid_session result = Inr True" and "\<not> truthy (session_of (srv 2))"
  shows "swarmui_generate_image srv model payload client_id base_url api_key [] =
          (Inr (JObj [(''error'', JStr ''Could not obtain SwarmUI session id (retry)'')]),
           [session_request base_url api_key,
            generation_request base_url (expected_headers api_key)
              (generation_data model payload (session_of (srv 0))),
            session_request base_url api_key])"
  unfolding swarmui_generate_image_def Let_def headers_eq
  using assms by (simp add: run_simps)

lemma generate_retry_post_fails:
  assumes "truthy (session_of (srv 0))" and "fetch_json (srv 1) = Inr result"
    and "invalid_session result = Inr True" and "truthy (session_of (srv 2))"
    and "fetch_json (srv 3) = Inl e"
  shows "swarmui_generate_image srv model payload client_id base_url api_key [] =
          (Inr (error_result e),
           [session_request base_url api_key,
            generation_request base_url (expected_headers api_key)
              (generation_data model payload (session_of (srv 0))),
            session_request base_url api_key,
            generation_request base_url (expected_headers api_key)
              (dict_set (generation_data model payload (session_of (srv 0)))
                 ''session_id'' (session_of (srv 2)))])"
  unfolding swarmui_generate_image_def Let_def headers_eq
  using assms by (simp add: run_simps error_result_def)

lemma generate_retry:
  assumes "truthy (session_of (srv 0))" and "fetch_json (srv 1) = Inr result"
    and "invalid_session result = Inr True" and "truthy (session_of (srv 2))"
    and "fetch_json (srv 3) = Inr result2"
  shows "swarmui_generate_image srv model payload client_id base_url api_key [] =
          (Inr (images_result base_url result2),
           [session_request base_url api_key,
            generation_request base_url (expected_headers api_key)
              (generation_data model payload (session_of (srv 0))),
            session_request base_url api_key,
            generation_request base_url (expected_headers api_key)
              (dict_set (generation_data model payload (session_of (srv 0)))
                 ''session_id'' (session_of (srv 2)))])"
  unfolding swarmui_generate_image_def Let_def headers_eq
  using assms by (simp add: run_simps error_result_def images_result_def split: sum.splits)

text \<open>
  Every call takes one of the seven ways, so its value and trace have one of the forms
  below: \<open>d\<close> and \<open>d'\<close> are the two payloads, \<open>v\<close> the returned dict.
\<close>

lemma generate_cases:
  fixes srv model payload client_id base_url api_key
  defines "S \<equiv> session_request base_url api_key"
      and "G \<equiv> generation_request base_url (expected_headers api_key)"
      and "d \<equiv> generation_data model payload (session_of (srv 0))"
      and "d' \<equiv> dict_set (generation_data model payload (session_of (srv 0)))
                  ''session_id'' (session_of (srv 2))"
  obtains
    (no_session) "\<not> truthy (session_of (srv 0))"
      "swarmui_generate_image srv model payload client_id base_url api_key [] =
         (Inr (JObj [(''error'', JStr ''Could not obtain SwarmUI session id'')]), [S])"
  | (failed) e where "truthy (session_of (srv 0))"
      "swarmui_generate_image srv model payload client_id base_url api_key [] =
         (Inr (error_result e), [S, G d])"
  | (first_try) result where "truthy (session_of (srv 0))"
      "fetch_json (srv 1) = Inr result" "invalid_session result = Inr False"
      "swarmui_generate_image srv model payload client_id base_url api_key [] =
         (Inr (images_result base_url result), [S, G d])"
  | (retry_no_session) result where "truthy (session_of (srv 0))"
      "fetch_json (srv 1) = Inr result" "invalid_session result = Inr True"
      "\<not> truthy (session_of (srv 2))"
      "swarmui_generate_image srv model payload client_id base_url api_key [] =
         (Inr (JObj [(''error'', JStr ''Could not obtain SwarmUI session id (retry)'')]),
          [S, G d, S])"
  | (retry_failed) result e where "truthy (session_of (srv 0))"
      "fetch_json (srv 1) = Inr result" "invalid_session result = Inr True"
      "truthy (session_of (srv 2))"
      "swarmui_generate_image srv model payload client_id base_url api_key [] =
         (Inr (error_result e), [S, G d, S, G d'])"
  | (retry) result result2 where "truthy (session_of (srv 0))"
      "fetch_json (srv 1) = Inr result" "invalid_session result = Inr True"
      "truthy (session_of (srv 2))"
      "swarmui_generate_image srv model payload client_id base_url api_key [] =
         (Inr (images_result base_url result2), [S, G d, S, G d'])"
proof (cases "truthy (session_of (srv 0))")
  case s1: False
  show ?thesis
    by (rule no_session [OF s1]) (simp add: S_def generate_no_session [of srv, OF s1])
next
  case s1: True
  show ?thesis
  proof (cases "fetch_json (srv 1)")
    case r1: (Inl e)
    show ?thesis
      by (rule failed [of e, OF s1])
        (simp only: S_def G_def d_def generate_post_fails [of srv, OF s1 r1])
  next
    case r1: (Inr result)
    show ?thesis
    proof (cases "invalid_session result")
      case t: (Inl e)
      show ?thesis
        by (rule failed [of e, OF s1])
          (simp only: S_def G_def d_def generate_test_raises [of srv, OF s1 r1 t])
    next
      case (Inr expired)
      show ?thesis
      proof (cases expired)
        case False
        with Inr have t: "invalid_session result = Inr False" by simp
        show ?thesis
          by (rule first_try [OF s1 r1 t])
            (simp only: S_def G_def d_def generate_first_try [of srv, OF s1 r1 t])
      next
        case True
        with Inr have t: "invalid_session result = Inr True" by simp
        show ?thesis
        proof (cases "truthy (session_of (srv 2))")
          case s2: False
          show ?thesis
            by (rule retry_no_session [OF s1 r1 t s2])
              (simp only: S_def G_def d_def
                generate_retry_no_session [of srv, OF s1 r1 t s2])
        next
          case s2: True
          show ?thesis
          proof (cases "fetch_json (srv 3)")
            case r2: (Inl e)
            show ?thesis
              by (rule retry_failed [of result e, OF s1 r1 t s2])
                (simp only: S_def G_def d_def d'_def
                  generate_retry_post_fails [of srv, OF s1 r1 t s2 r2])
          next
            case r2: (Inr result2)
            show ?thesis
              by (rule retry [of result result2, OF s1 r1 t s2])
                (simp only: S_def G_def d_def d'_def
                  generate_retry [of srv, OF s1 r1 t s2 r2])
          qed
        qed
      qed
    qed
  qed
qed

section \<open>Counting the requests of a trace\<close>

lemma count_session_request [simp]:
  "session_acquisitions base_url (session_request base_url api_key # tr) =
     Suc (session_acquisitions base_url tr)"
  "generation_posts base_url (session_request base_url api_key # tr) =
     generation_posts base_url tr"
  by (simp_all add: session_acquisitions_def generation_posts_def session_request_def)

lemma count_generation_request [simp]:
  "session_acquisitions base_url (generation_request base_url hs d # tr) =
     session_acquisitions base_url tr"
  "generation_posts base_url (generation_request base_url hs d # tr) =
     Suc (generation_posts base_url tr)"
  by (simp_all add: session_acquisitions_def generation_posts_def generation_request_def)

lemma count_nil [simp]:
  "session_acquisitions base_url [] = 0" "generation_posts base_url [] = 0"
  by (simp_all add: session_acquisitions_def generation_posts_def)

lemma invalid_session_sentinel:
  assumes "lookup result ''error_id'' = Some (JStr ''invalid_session_id'')"
  shows "invalid_session result = Inr True"
  using assms by (cases result) (simp_all add: lookup_def invalid_session_def)

lemma fetch_json_ok:
  assumes "out = Returns resp" and "status_error resp = None" and "body resp = Inr result"
  shows "fetch_json out = Inr result"
  using assms by (simp add: fetch_json_def raise_for_status_def resp_json_def)

section \<open>The retry protocol\<close>

text \<open>
  Claim C1. Take a call whose first session acquisition gave a usable identifier and whose
  first generation POST (exchange 1) succeeded at the HTTP level with a parsed body that
  carries \<^verbatim>\<open>error_id == "invalid_session_id"\<close>. Then the call performs exactly
  one more session acquisition (two in all) and at most one more generation POST (at
  most two in all); and if that second acquisition, made on the first two requests of
  the trace, returns \<^verbatim>\<open>None\<close>, the call returns the retry error and has sent the
  one generation POST only.
\<close>

theorem generate_retries_once:
  assumes "fst (get_swarmui_session_id srv base_url api_key []) = Inr sid" and "truthy sid"
    and "srv 1 = Returns resp" and "status_error resp = None" and "body resp = Inr result"
    and "lookup result ''error_id'' = Some (JStr ''invalid_session_id'')"
  shows "let run = swarmui_generate_image srv model payload client_id base_url api_key []
         in session_acquisitions base_url (snd run) = 2
          \<and> generation_posts base_url (snd run) \<le> 2
          \<and> (fst (get_swarmui_session_id srv base_url api_key (take 2 (snd run))) = Inr JNull
               \<longrightarrow> fst run =
                     Inr (JObj [(''error'', JStr ''Could not obtain SwarmUI session id (retry)'')])
                 \<and> generation_posts base_url (snd run) = 1)"
proof -
  from assms(1,2) have s1: "truthy (session_of (srv 0))"
    by (simp add: session_run)
  have r1: "fetch_json (srv 1) = Inr result"
    using assms(3-5) by (rule fetch_json_ok)
  have t: "invalid_session result = Inr True"
    using assms(6) by (rule invalid_session_sentinel)
  show ?thesis
  proof (cases "truthy (session_of (srv 2))")
    case False
    show ?thesis
      by (simp add: Let_def generate_retry_no_session [of srv, OF s1 r1 t False])
  next
    case s2: True
    then have nn: "session_of (srv 2) \<noteq> JNull"
      by auto
    show ?thesis
    proof (cases "fetch_json (srv 3)")
      case (Inl e)
      show ?thesis
        using nn
        by (simp add: Let_def generate_retry_post_fails [of srv, OF s1 r1 t s2 Inl]
            session_run numeral_2_eq_2)
    next
      case (Inr result2)
      show ?thesis
        using nn
        by (simp add: Let_def generate_retry [of srv, OF s1 r1 t s2 Inr]
            session_run numeral_2_eq_2)
    qed
  qed
qed

theorem generate_retries_once_witness:
  "let srv = scripted [ok (JObj [(''session_id'', JStr ''s1'')]), ok expired_body, Raises ''timeout''];
       run = swarmui_generate_image srv ''sdxl'' example_form ''c1'' ''https://svc.example'' ''key'' []
   in session_acquisitions ''https://svc.example'' (snd run) = 2
    \<and> generation_posts ''https://svc.example'' (snd run) = 1
    \<and> fst run = Inr (JObj [(''error'', JStr ''Could not obtain SwarmUI session id (retry)'')])"
proof -
  define srv where "srv = scripted [ok (JObj [(''session_id'', JStr ''s1'')]), ok expired_body, Raises ''timeout'']"
  have a: "fst (get_swarmui_session_id srv ''https://svc.example'' ''key'' []) = Inr (JStr ''s1'')"
    by (simp add: srv_def session_run session_of_def fetch_json_def scripted_def ok_def
        raise_for_status_def resp_json_def status_error_def refused_status_def)
  have b: "truthy (JStr ''s1'')"
    by simp
  have c: "srv 1 = Returns (Response 200 ''OK'' (Inr expired_body))"
    by (simp add: srv_def scripted_def ok_def)
  have d: "status_error (Response 200 ''OK'' (Inr expired_body)) = None"
    and e: "body (Response 200 ''OK'' (Inr expired_body)) = Inr expired_body"
    by (simp_all add: status_error_def refused_status_def)
  have f: "lookup expired_body ''error_id'' = Some (JStr ''invalid_session_id'')"
    by (simp add: lookup_def expired_body_def)
  have g: "\<And>tr. length tr = 2 \<Longrightarrow>
     fst (get_swarmui_session_id srv ''https://svc.example'' ''key'' tr) = Inr JNull"
    by (simp add: srv_def session_run session_of_def fetch_json_def scripted_def)
  have h: "length (take 2 (snd (swarmui_generate_image srv ''sdxl'' example_form ''c1'' ''https://svc.example'' ''key'' []))) = 2"
    using generate_retries_once [OF a b c d e f, of "''sdxl''" example_form "''c1''"]
      length_filter_le [of "\<lambda>r. req_url r = ''https://svc.example'' @ ''/API/GetNewSession''"
        "snd (swarmui_generate_image srv ''sdxl'' example_form ''c1'' ''https://svc.example'' ''key'' [])"]
    by (simp add: Let_def session_acquisitions_def)
  show ?thesis
    using generate_retries_once [OF a b c d e f, of "''sdxl''" example_form "''c1''"] g [OF h]
    unfolding srv_def [symmetric] by (simp add: Let_def)
qed

text \<open>
  Claim C2. Whatever the server answers, one call performs at most two session
  acquisitions and sends at most two generation POSTs.
\<close>

theorem generate_at_most_two_rounds:
  "session_acquisitions base_url
     (snd (swarmui_generate_image srv model payload client_id base_url api_key [])) \<le> 2
   \<and> generation_posts base_url
     (snd (swarmui_generate_image srv model payload client_id base_url api_key [])) \<le> 2"
  by (cases rule: generate_cases [of srv model payload client_id base_url api_key]) simp_all

text \<open>
  Claim C3. When the first session acquisition returns \<^verbatim>\<open>None\<close>, the call
  returns the error \<^verbatim>\<open>Could not obtain SwarmUI session id\<close> and has sent no
  generation POST.
\<close>

theorem generate_without_session:
  assumes "fst (get_swarmui_session_id srv base_url api_key []) = Inr JNull"
  shows "fst (swarmui_generate_image srv model payload client_id base_url api_key []) =
           Inr (JObj [(''error'', JStr ''Could not obtain SwarmUI session id'')])
         \<and> generation_posts base_url
             (snd (swarmui_generate_image srv model payload client_id base_url api_key [])) = 0"
proof -
  from assms have "session_of (srv 0) = JNull"
    by (simp add: session_run)
  then have "\<not> truthy (session_of (srv 0))"
    by simp
  then show ?thesis
    by (simp add: generate_no_session)
qed

theorem generate_without_session_witness:
  "fst (swarmui_generate_image (scripted [Raises ''timeout'']) ''sdxl'' example_form ''c1''
          ''https://svc.example'' ''key'' []) =
     Inr (JObj [(''error'', JStr ''Could not obtain SwarmUI session id'')])
   \<and> generation_posts ''https://svc.example''
       (snd (swarmui_generate_image (scripted [Raises ''timeout'']) ''sdxl'' example_form ''c1''
          ''https://svc.example'' ''key'' [])) = 0"
proof -
  have "fst (get_swarmui_session_id (scripted [Raises ''timeout'']) ''https://svc.example'' ''key'' [])
          = Inr JNull"
    by (simp add: session_run session_of_def fetch_json_def scripted_def)
  then show ?thesis
    by (rule generate_without_session)
qed

section \<open>The shape of the returned value\<close>

text \<open>
  Claim C6. Every call returns (it never raises), and what it returns is a dict with a
  single key: either \<^verbatim>\<open>data\<close>, bound to a list, or \<^verbatim>\<open>error\<close>, bound
  to a string. So the two keys never occur together, and without \<^verbatim>\<open>error\<close> the
  image list is there.
\<close>

theorem generate_result_shape:
  "\<exists>k v. fst (swarmui_generate_image srv model payload client_id base_url api_key []) =
            Inr (JObj [(k, v)])
         \<and> ((k = ''data'' \<and> (\<exists>images. v = JList images))
            \<or> (k = ''error'' \<and> (\<exists>msg. v = JStr msg)))"
proof -
  have img: "\<And>result. \<exists>k v. images_result base_url result = JObj [(k, v)]
         \<and> ((k = ''data'' \<and> (\<exists>images. v = JList images))
            \<or> (k = ''error'' \<and> (\<exists>msg. v = JStr msg)))"
    by (simp add: images_result_def error_result_def split: sum.splits)
  show ?thesis
    by (cases rule: generate_cases [of srv model payload client_id base_url api_key])
      (simp_all add: error_result_def img)
qed

section \<open>Listing and selecting models: what a call returns and sends\<close>

lemma list_models_run:
  "list_swarmui_models srv base_url api_key path depth subtype sort_by allow_remote sort_reverse tr =
     (Inr (case fetch_json (srv (length tr)) of
             Inl e \<Rightarrow> JList []
           | Inr data \<Rightarrow> (case py_get data ''files'' (JList []) of
                            Inl e \<Rightarrow> JList [] | Inr v \<Rightarrow> v)),
      tr @ [\<lparr>req_url = base_url @ ''/API/ListModels'',
             req_headers = [(''Authorization'', ''Bearer '' @ api_key),
                            (''Content-Type'', ''application/json'')],
             req_json = JObj [(''path'', JStr path), (''depth'', JInt depth),
                              (''subtype'', JStr subtype), (''sortBy'', JStr sort_by),
                              (''allowRemote'', JBool allow_remote),
                              (''sortReverse'', JBool sort_reverse)],
             req_timeout = None\<rparr>])"
  unfolding list_swarmui_models_def Let_def
  by (simp add: io_return_def io_lift_def io_bind_def try_except_def requests_post_def
      fetch_json_def split: outcome.splits sum.splits)

lemma select_model_run:
  "select_swarmui_model srv base_url api_key model_path backend_id tr =
     (Inr (case fetch_json (srv (length tr)) of
             Inl e \<Rightarrow> JBool False
           | Inr data \<Rightarrow> (case py_get data ''success'' (JBool False) of
                            Inl e \<Rightarrow> JBool False | Inr v \<Rightarrow> v)),
      tr @ [\<lparr>req_url = base_url @ ''/API/SelectModel'',
             req_headers = [(''Authorization'', ''Bearer '' @ api_key),
                            (''Content-Type'', ''application/json'')],
             req_json = JObj [(''model'', JStr model_path),
                              (''backendId'', (case backend_id of None \<Rightarrow> JNull | Some b \<Rightarrow> JStr b))],
             req_timeout = None\<rparr>])"
  unfolding select_swarmui_model_def Let_def
  by (simp add: io_return_def io_lift_def io_bind_def try_except_def requests_post_def
      fetch_json_def split: outcome.splits sum.splits)

lemma fetch_json_failure:
  assumes "request_fails out"
  shows "\<exists>e. fetch_json out = Inl e"
  using assms
  by (cases out)
    (auto simp add: request_fails_def fetch_json_def raise_for_status_def resp_json_def
      status_error_def isl_def)

text \<open>
  Claim C9, as the code has it. \<^verbatim>\<open>list_swarmui_models\<close> and
  \<^verbatim>\<open>select_swarmui_model\<close> never raise to their caller, whatever the server
  does; and when the POST raises, the status is one that \<^verbatim>\<open>raise_for_status\<close>
  refuses (400 to 599), or the body does not parse, the first returns the empty list and
  the second returns \<^verbatim>\<open>False\<close>.
\<close>

theorem models_fail_silently:
  "(\<exists>v. fst (list_swarmui_models srv base_url api_key path depth subtype sort_by
              allow_remote sort_reverse tr) = Inr v)
   \<and> (\<exists>v. fst (select_swarmui_model srv base_url api_key model_path backend_id tr) = Inr v)
   \<and> (request_fails (srv (length tr)) \<longrightarrow>
        fst (list_swarmui_models srv base_url api_key path depth subtype sort_by
               allow_remote sort_reverse tr) = Inr (JList [])
      \<and> fst (select_swarmui_model srv base_url api_key model_path backend_id tr) =
          Inr (JBool False))"
proof -
  have "fst (list_swarmui_models srv base_url api_key path depth subtype sort_by
               allow_remote sort_reverse tr) = Inr (JList [])"
    and "fst (select_swarmui_model srv base_url api_key model_path backend_id tr) =
          Inr (JBool False)"
    if "request_fails (srv (length tr))"
    using fetch_json_failure [OF that]
    by (auto simp add: list_models_run select_model_run)
  then show ?thesis
    by (simp add: list_models_run select_model_run)
qed

theorem models_fail_silently_witness:
  "fst (list_swarmui_models (scripted [Raises ''timeout'']) ''http://swarm'' ''key'' []
          1 ''Stable-Diffusion'' ''Name'' True False []) = Inr (JList [])
   \<and> fst (select_swarmui_model
          (scripted [Returns (Response 404 ''404 Not Found''
                               (Inr (JObj [(''success'', JBool True)])))])
          ''http://swarm'' ''key'' ''sdxl'' None []) = Inr (JBool False)
   \<and> fst (list_swarmui_models
          (scripted [Returns (Response 200 ''OK'' (Inl ''Expecting value''))])
          ''http://swarm'' ''key'' [] 1 ''Stable-Diffusion'' ''Name'' True False []) =
       Inr (JList [])"
proof -
  have a: "request_fails (scripted [Raises ''timeout''] (length ([]::trace)))"
    by (simp add: request_fails_def scripted_def)
  have b: "request_fails
      (scripted [Returns (Response 404 ''404 Not Found''
                           (Inr (JObj [(''success'', JBool True)])))] (length ([]::trace)))"
    by (simp add: request_fails_def refused_status_def scripted_def)
  have c: "request_fails
      (scripted [Returns (Response 200 ''OK'' (Inl ''Expecting value''))] (length ([]::trace)))"
    by (simp add: request_fails_def scripted_def)
  show ?thesis
    using models_fail_silently [where srv = "scripted [Raises ''timeout'']" and tr = "[]"
        and base_url = "''http://swarm''" and api_key = "''key''" and path = "[]"
        and depth = 1 and subtype = "''Stable-Diffusion''" and sort_by = "''Name''"
        and allow_remote = True and sort_reverse = False]
      models_fail_silently [where srv = "scripted [Returns (Response 404 ''404 Not Found''
                           (Inr (JObj [(''success'', JBool True)])))]"
        and tr = "[]" and base_url = "''http://swarm''" and api_key = "''key''"
        and model_path = "''sdxl''" and backend_id = None]
      models_fail_silently [where srv = "scripted [Returns (Response 200 ''OK'' (Inl ''Expecting value''))]" and tr = "[]"
        and base_url = "''http://swarm''" and api_key = "''key''" and path = "[]"
        and depth = 1 and subtype = "''Stable-Diffusion''" and sort_by = "''Name''"
        and allow_remote = True and sort_reverse = False]
      a b c
    by blast
qed

text \<open>
  The claim as the specification words it asks for the sentinels at every non-2xx
  status. An answer with the status 300 is a transport failure in that sense, but
  \<^verbatim>\<open>raise_for_status\<close> lets it pass, and the two calls return what its body says.
\<close>

theorem models_status_counterexample:
  "transport_failure (Returns (Response 300 ''Multiple Choices''
       (Inr (JObj [(''files'', JList [JStr ''m1'']), (''success'', JBool True)]))))
   \<and> fst (list_swarmui_models
          (scripted [Returns (Response 300 ''Multiple Choices''
             (Inr (JObj [(''files'', JList [JStr ''m1'']), (''success'', JBool True)])))])
          ''http://swarm'' ''key'' [] 1 ''Stable-Diffusion'' ''Name'' True False []) =
       Inr (JList [JStr ''m1''])
   \<and> fst (select_swarmui_model
          (scripted [Returns (Response 300 ''Multiple Choices''
             (Inr (JObj [(''files'', JList [JStr ''m1'']), (''success'', JBool True)])))])
          ''http://swarm'' ''key'' ''sdxl'' None []) = Inr (JBool True)"
  by (simp add: transport_failure_def success_status_def list_models_run select_model_run
      scripted_def fetch_json_def raise_for_status_def resp_json_def status_error_def
      refused_status_def)

section \<open>Request headers\<close>

text \<open>
  The requests of \<^verbatim>\<open>get_swarmui_session_id\<close> and
  \<^verbatim>\<open>swarmui_generate_image\<close> carry \<^verbatim>\<open>User-Agent: Mozilla/5.0\<close>, and
  \<^verbatim>\<open>Authorization\<close> exactly when the key is not empty.
\<close>

lemma swarm_requests_headers:
  "header (session_request base_url api_key) ''User-Agent'' = Some ''Mozilla/5.0''"
  "header (generation_request base_url (expected_headers api_key) d) ''User-Agent'' = Some ''Mozilla/5.0''"
  "header (session_request base_url api_key) ''Authorization'' =
     (if api_key \<noteq> [] then Some (''Bearer '' @ api_key) else None)"
  "header (generation_request base_url (expected_headers api_key) d) ''Authorization'' =
     (if api_key \<noteq> [] then Some (''Bearer '' @ api_key) else None)"
  by (simp_all add: header_def session_request_def generation_request_def expected_headers_def)

text \<open>
  Claim C8 says the same of every request of the module. The requests of
  \<^verbatim>\<open>list_swarmui_models\<close> and \<^verbatim>\<open>select_swarmui_model\<close> are built
  otherwise (lines 196 and 218): with an empty API key, each is sent without a
  \<^verbatim>\<open>User-Agent\<close> header of the module's own and with the header
  \<^verbatim>\<open>Authorization: Bearer \<close> (an empty credential).
\<close>

theorem models_headers_empty_key:
  "map (\<lambda>r. (req_url r, header r ''User-Agent'', header r ''Authorization''))
     (snd (list_swarmui_models (scripted [ok (JObj [(''files'', JList [])])])
             ''http://swarm'' [] [] 1 ''Stable-Diffusion'' ''Name'' True False [])) =
     [(''http://swarm/API/ListModels'', None, Some ''Bearer '')]
   \<and> map (\<lambda>r. (req_url r, header r ''User-Agent'', header r ''Authorization''))
     (snd (select_swarmui_model (scripted [ok (JObj [(''success'', JBool True)])])
             ''http://swarm'' [] ''sdxl'' None [])) =
     [(''http://swarm/API/SelectModel'', None, Some ''Bearer '')]"
  by (simp add: list_models_run select_model_run header_def)

section \<open>The generation payload\<close>

lemma map_of_dict_set:
  "map_of (dict_set d k v) k' = (if k' = k then Some v else map_of d k')"
  by (induction d k v rule: dict_set.induct) auto

lemma map_of_dict_update:
  "map_of (dict_update d e) k = (case map_of (rev e) k of Some v \<Rightarrow> Some v | None \<Rightarrow> map_of d k)"
  unfolding dict_update_def
  by (induction e arbitrary: d) (auto simp add: map_of_dict_set split: option.splits)


lemma map_of_rev_distinct:
  "distinct (map fst xs) \<Longrightarrow> map_of (rev xs) k = map_of xs k"
proof (induction xs)
  case Nil
  show ?case by simp
next
  case (Cons x xs)
  then have "map_of (rev xs) (fst x) = None"
    by (simp add: map_of_eq_None_iff)
  with Cons show ?case
    by (cases x) (force simp add: map_add_def split: option.splits)
qed

lemma distinct_dict_set:
  "distinct (map fst d) \<Longrightarrow> distinct (map fst (dict_set d k v))"
proof (induction d k v rule: dict_set.induct)
  case (1 k v)
  show ?case by simp
next
  case (2 k' v' d k v)
  have "fst ` set (dict_set d k v) \<subseteq> insert k (fst ` set d)" for d :: "('a \<times> 'b) list"
    by (induction d k v rule: dict_set.induct) auto
  with 2 show ?case
    by auto
qed

lemma map_of_filter_key:
  "map_of (filter (\<lambda>kv. fst kv \<noteq> k0) xs) k = (if k = k0 then None else map_of xs k)"
  by (induction xs) auto

lemma map_of_generation_data:
  "map_of (generation_data model payload sid) k =
     (if k = ''session_id'' then Some sid
      else if k = ''model'' \<and> model \<noteq> [] then Some (JStr model)
      else if k = ''seed'' \<and> form_seed payload \<noteq> None
        then map_option JInt (form_seed payload)
      else if k = ''negative_prompt'' \<and> form_negative_prompt payload \<noteq> None
                \<and> form_negative_prompt payload \<noteq> Some []
        then map_option JStr (form_negative_prompt payload)
      else map_of [(''prompt'', JStr (form_prompt payload)),
                   (''width'', JInt (form_width payload)),
                   (''height'', JInt (form_height payload)),
                   (''steps'', opt_int (form_steps payload)),
                   (''images'', JInt (form_n payload))] k)"
proof -
  define raw0 where "raw0 =
    [(''prompt'', JStr (form_prompt payload)), (''width'', JInt (form_width payload)),
     (''height'', JInt (form_height payload)), (''steps'', opt_int (form_steps payload)),
     (''images'', JInt (form_n payload)), (''session_id'', sid)]"
  define raw1 where "raw1 =
    (case form_negative_prompt payload of
       None \<Rightarrow> raw0
     | Some np \<Rightarrow> if np \<noteq> [] then dict_set raw0 ''negative_prompt'' (JStr np) else raw0)"
  define raw2 where "raw2 =
    (case form_seed payload of None \<Rightarrow> raw1 | Some sd \<Rightarrow> dict_set raw1 ''seed'' (JInt sd))"
  define raw3 where "raw3 =
    (if model \<noteq> [] then dict_set raw2 ''model'' (JStr model) else raw2)"
  have gd: "generation_data model payload sid =
      dict_update [(''images'', JInt (form_n payload)), (''session_id'', sid)]
        (filter (\<lambda>kv. fst kv \<noteq> ''session_id'') raw3)"
    unfolding generation_data_def Let_def raw3_def raw2_def raw1_def raw0_def ..
  have d0: "distinct (map fst raw0)"
    by (simp add: raw0_def)
  have d1: "distinct (map fst raw1)"
    by (simp add: raw1_def d0 distinct_dict_set split: option.splits)
  have d2: "distinct (map fst raw2)"
    by (simp add: raw2_def d1 distinct_dict_set split: option.splits)
  have d3: "distinct (map fst raw3)"
    by (simp add: raw3_def d2 distinct_dict_set)
  have m1: "map_of raw1 k =
      (if k = ''negative_prompt'' \<and> form_negative_prompt payload \<noteq> None
            \<and> form_negative_prompt payload \<noteq> Some []
       then map_option JStr (form_negative_prompt payload) else map_of raw0 k)"
    by (simp add: raw1_def map_of_dict_set split: option.splits)
  have m2: "map_of raw2 k =
      (if k = ''seed'' \<and> form_seed payload \<noteq> None
       then map_option JInt (form_seed payload) else map_of raw1 k)"
    by (simp add: raw2_def map_of_dict_set split: option.splits)
  have m3: "map_of raw3 k =
      (if k = ''model'' \<and> model \<noteq> [] then Some (JStr model) else map_of raw2 k)"
    by (simp add: raw3_def map_of_dict_set)
  have "map_of (generation_data model payload sid) k =
      (case (if k = ''session_id'' then None else map_of raw3 k) of
         Some v \<Rightarrow> Some v
       | None \<Rightarrow> map_of [(''images'', JInt (form_n payload)), (''session_id'', sid)] k)"
    unfolding gd map_of_dict_update
    by (simp only: map_of_rev_distinct [OF distinct_map_filter [OF d3]] map_of_filter_key)
  then show ?thesis
    unfolding m3 m2 m1 by (auto simp add: raw0_def split: option.splits)
qed


lemma payload_keys:
  assumes "d = generation_data model payload sid \<or>
           d = dict_set (generation_data model payload sid) ''session_id'' sid'"
  shows "map_of d ''negative_prompt'' =
           (if form_negative_prompt payload \<noteq> None \<and> form_negative_prompt payload \<noteq> Some []
            then map_option JStr (form_negative_prompt payload) else None)"
    and "map_of d ''seed'' = map_option JInt (form_seed payload)"
    and "map_of d ''model'' = (if model \<noteq> [] then Some (JStr model) else None)"
    and "map_of d ''steps'' = Some (opt_int (form_steps payload))"
proof -
  have same: "map_of d k = map_of (generation_data model payload sid) k"
    if "k \<noteq> ''session_id''" for k
    using assms that by (auto simp add: map_of_dict_set)
  show "map_of d ''negative_prompt'' =
           (if form_negative_prompt payload \<noteq> None \<and> form_negative_prompt payload \<noteq> Some []
            then map_option JStr (form_negative_prompt payload) else None)"
    by (simp add: same map_of_generation_data)
  show "map_of d ''seed'' = map_option JInt (form_seed payload)"
    by (simp add: same map_of_generation_data)
  show "map_of d ''model'' = (if model \<noteq> [] then Some (JStr model) else None)"
    by (simp add: same map_of_generation_data)
  show "map_of d ''steps'' = Some (opt_int (form_steps payload))"
    by (simp add: same map_of_generation_data)
qed

text \<open>
  Claim C10. Every generation POST of a call (the first one and the retry) carries a
  payload that has the key \<^verbatim>\<open>negative_prompt\<close> exactly when the request's
  negative prompt is a non-empty string, the key \<^verbatim>\<open>seed\<close> exactly when the
  request's seed is not \<^verbatim>\<open>None\<close>, the key \<^verbatim>\<open>model\<close> exactly when the
  \<^verbatim>\<open>model\<close> argument is not empty, and always the key \<^verbatim>\<open>steps\<close>, bound
  to \<^verbatim>\<open>None\<close> when the request has no steps.
\<close>

theorem generation_payload_keys:
  assumes "r \<in> set (snd (swarmui_generate_image srv model payload client_id base_url api_key []))"
    and "req_url r = base_url @ ''/API/GenerateText2Image''"
  shows "(has_key (req_json r) ''negative_prompt'' \<longleftrightarrow>
            (\<exists>np. form_negative_prompt payload = Some np \<and> np \<noteq> []))
       \<and> (has_key (req_json r) ''seed'' \<longleftrightarrow> form_seed payload \<noteq> None)
       \<and> (has_key (req_json r) ''model'' \<longleftrightarrow> model \<noteq> [])
       \<and> has_key (req_json r) ''steps''
       \<and> (form_steps payload = None \<longrightarrow> lookup (req_json r) ''steps'' = Some JNull)"
proof -
  have s: "req_url (session_request base_url api_key) \<noteq> base_url @ ''/API/GenerateText2Image''"
    by (simp add: session_request_def)
  have "\<exists>d. req_json r = JObj d \<and>
          (d = generation_data model payload (session_of (srv 0)) \<or>
           d = dict_set (generation_data model payload (session_of (srv 0)))
                 ''session_id'' (session_of (srv 2)))"
    using assms s
    by (cases rule: generate_cases [of srv model payload client_id base_url api_key])
      (auto simp add: generation_request_def)
  then obtain d where d: "req_json r = JObj d"
    and "d = generation_data model payload (session_of (srv 0)) \<or>
         d = dict_set (generation_data model payload (session_of (srv 0)))
               ''session_id'' (session_of (srv 2))"
    by blast
  note keys = payload_keys [OF this(2)]
  show ?thesis
    unfolding d has_key_def lookup_def
    by (auto simp add: keys opt_int_def)
qed

theorem generation_payload_keys_witness:
  "let srv = scripted [ok (JObj [(''session_id'', JStr ''s1'')]),
                       ok (JObj [(''images'', JList [JStr ''outputs/1.png''])])];
       run = swarmui_generate_image srv ''sdxl'' example_form ''c1'' ''https://svc.example'' [] []
   in map req_url (snd run) =
        [''https://svc.example/API/GetNewSession'', ''https://svc.example/API/GenerateText2Image'']
    \<and> \<not> has_key (req_json (snd run ! 1)) ''negative_prompt''
    \<and> \<not> has_key (req_json (snd run ! 1)) ''seed''
    \<and> has_key (req_json (snd run ! 1)) ''model''
    \<and> lookup (req_json (snd run ! 1)) ''steps'' = Some JNull"
proof -
  define srv where "srv = scripted [ok (JObj [(''session_id'', JStr ''s1'')]),
                       ok (JObj [(''images'', JList [JStr ''outputs/1.png''])])]"
  define run where
    "run = swarmui_generate_image srv ''sdxl'' example_form ''c1'' ''https://svc.example'' [] []"
  have s0: "session_of (srv 0) = JStr ''s1''"
    by (simp add: srv_def scripted_def ok_def session_of_def fetch_json_def
        raise_for_status_def resp_json_def status_error_def refused_status_def)
  have r1: "fetch_json (srv 1) = Inr (JObj [(''images'', JList [JStr ''outputs/1.png''])])"
    by (simp add: srv_def scripted_def ok_def fetch_json_def raise_for_status_def resp_json_def status_error_def refused_status_def)
  have t: "invalid_session (JObj [(''images'', JList [JStr ''outputs/1.png''])]) = Inr False"
    by (simp add: invalid_session_def)
  have tr: "snd run =
      [session_request ''https://svc.example'' [],
       generation_request ''https://svc.example'' (expected_headers [])
         (generation_data ''sdxl'' example_form (session_of (srv 0)))]"
    unfolding run_def using generate_first_try [of srv, OF _ r1 t] by (simp add: s0)
  have urls: "map req_url (snd run) =
        [''https://svc.example/API/GetNewSession'', ''https://svc.example/API/GenerateText2Image'']"
    by (simp add: tr session_request_def generation_request_def)
  have mem: "snd run ! 1 \<in> set (snd run)"
    by (simp add: tr)
  have url: "req_url (snd run ! 1) = ''https://svc.example'' @ ''/API/GenerateText2Image''"
    by (simp add: tr generation_request_def)
  have "\<not> has_key (req_json (snd run ! 1)) ''negative_prompt''
    \<and> \<not> has_key (req_json (snd run ! 1)) ''seed''
    \<and> has_key (req_json (snd run ! 1)) ''model''
    \<and> lookup (req_json (snd run ! 1)) ''steps'' = Some JNull"
    using generation_payload_keys [OF mem [unfolded run_def] url [unfolded run_def]]
    unfolding run_def [symmetric] by (simp add: example_form_def)
  with urls show ?thesis
    unfolding run_def srv_def by (simp add: Let_def)
qed

section \<open>Normalising the image list\<close>

lemma collect_images_acc:
  "collect_images base_url items acc =
     (case collect_images base_url items [] of
        Inl e \<Rightarrow> Inl e
      | Inr images \<Rightarrow> Inr (acc @ images))"
proof (induction items arbitrary: acc)
  case Nil
  show ?case by simp
next
  case (Cons img_path rest)
  show ?case
  proof (cases img_path)
    case (JStr p)
    show ?thesis
      unfolding JStr
      by (simp add: Cons.IH [of "acc @ _"] Cons.IH [of "[_]"] Let_def split: sum.splits)
  qed simp_all
qed

lemma collect_images_strings:
  "collect_images base_url (map JStr ps) [] =
     Inr (map (\<lambda>p. JObj [(''url'', JStr (if startswith p ''data:'' \<or> startswith p ''http''
                                          then p else base_url @ ''/'' @ p))]) ps)"
proof (induction ps)
  case Nil
  show ?case by simp
next
  case (Cons p ps)
  then show ?case
    by (simp add: Let_def collect_images_acc [of _ _ "[_]"])
qed

lemma collect_images_only_strings:
  assumes "collect_images base_url items [] = Inr images"
  shows "\<exists>ps. items = map JStr ps"
  using assms
proof (induction items arbitrary: images)
  case Nil
  show ?case by simp
next
  case (Cons img_path rest)
  from Cons.prems obtain p where p: "img_path = JStr p"
    by (cases img_path) simp_all
  from Cons.prems obtain images' where "collect_images base_url rest [] = Inr images'"
    unfolding p
    by (auto simp add: Let_def collect_images_acc [of _ _ "[_]"] split: sum.splits if_splits)
  then obtain ps where "rest = map JStr ps"
    using Cons.IH by blast
  then have "img_path # rest = map JStr (p # ps)"
    by (simp add: p)
  then show ?case ..
qed

text \<open>
  Claim C4, as the code has it. When the loop over the image list completes (which it
  does exactly when every entry is a string), the result has one image per entry, and the
  url of a string entry \<open>p\<close> is \<open>p\<close> itself when \<open>p\<close> starts with \<^verbatim>\<open>data:\<close> or with
  the four characters \<^verbatim>\<open>http\<close>, and \<^verbatim>\<open>base_url + "/" + p\<close> otherwise. The
  test of line 174 is \<^verbatim>\<open>startswith("http")\<close>, not a test for a scheme.
\<close>

theorem image_urls_resolved:
  assumes "collect_images base_url items [] = Inr images"
  shows "length images = length items
       \<and> (\<forall>i p. i < length items \<longrightarrow> items ! i = JStr p \<longrightarrow>
            images ! i =
              JObj [(''url'', JStr (if startswith p ''data:'' \<or> startswith p ''http''
                                   then p else base_url @ ''/'' @ p))])"
proof -
  from collect_images_only_strings [OF assms] obtain ps where ps: "items = map JStr ps" ..
  with assms have "images =
      map (\<lambda>p. JObj [(''url'', JStr (if startswith p ''data:'' \<or> startswith p ''http''
                                    then p else base_url @ ''/'' @ p))]) ps"
    by (simp add: collect_images_strings)
  then show ?thesis
    by (simp add: ps)
qed


theorem image_urls_resolved_witness:
  "collect_images ''https://svc.example''
     [JStr ''outputs/1.png'', JStr ''data:image/png;base64,AAAA'', JStr ''https://cdn.example/2.png''] [] =
   Inr [JObj [(''url'', JStr ''https://svc.example/outputs/1.png'')],
        JObj [(''url'', JStr ''data:image/png;base64,AAAA'')],
        JObj [(''url'', JStr ''https://cdn.example/2.png'')]]
   \<and> [JObj [(''url'', JStr ''https://svc.example/outputs/1.png'')],
        JObj [(''url'', JStr ''data:image/png;base64,AAAA'')],
        JObj [(''url'', JStr ''https://cdn.example/2.png'')]] ! 0 =
       JObj [(''url'', JStr ''https://svc.example/outputs/1.png'')]"
proof -
  have run: "collect_images ''https://svc.example''
     [JStr ''outputs/1.png'', JStr ''data:image/png;base64,AAAA'', JStr ''https://cdn.example/2.png''] [] =
   Inr [JObj [(''url'', JStr ''https://svc.example/outputs/1.png'')],
        JObj [(''url'', JStr ''data:image/png;base64,AAAA'')],
        JObj [(''url'', JStr ''https://cdn.example/2.png'')]]"
    by (simp add: startswith_def)
  note nth = image_urls_resolved [OF run, THEN conjunct2, rule_format, of 0 "''outputs/1.png''"]
  from run nth show ?thesis
    by (simp add: startswith_def)
qed

lemma scripted_session:
  "session_of (scripted (ok (JObj [(''session_id'', JStr ''s1'')]) # outs) 0) = JStr ''s1''"
  by (simp add: scripted_def ok_def session_of_def fetch_json_def raise_for_status_def
      resp_json_def status_error_def refused_status_def)

lemma scripted_fetch:
  "fetch_json (scripted [o0, ok v] 1) = Inr v"
  by (simp add: scripted_def ok_def fetch_json_def raise_for_status_def resp_json_def status_error_def refused_status_def)

lemma generate_scripted_first_try:
  assumes "invalid_session v = Inr False"
  shows "fst (swarmui_generate_image
                (scripted [ok (JObj [(''session_id'', JStr ''s1'')]), ok v])
                model payload client_id base_url api_key []) =
         Inr (images_result base_url v)"
  using generate_first_try [of "scripted [ok (JObj [(''session_id'', JStr ''s1'')]), ok v]",
      OF _ scripted_fetch assms]
  by (simp add: scripted_session)

text \<open>
  The claim as the specification words it asks for \<^verbatim>\<open>base_url + "/" + p\<close> whenever
  \<open>p\<close> starts with none of \<^verbatim>\<open>http://\<close>, \<^verbatim>\<open>https://\<close> and
  \<^verbatim>\<open>data:\<close>. The relative path \<^verbatim>\<open>http_cache/1.png\<close> is such a \<open>p\<close>, and
  the call returns it unchanged.
\<close>

theorem http_prefix_counterexample:
  "fst (swarmui_generate_image
          (scripted [ok (JObj [(''session_id'', JStr ''s1'')]),
                     ok (JObj [(''images'', JList [JStr ''http_cache/1.png''])])])
          ''sdxl'' example_form ''c1'' ''https://svc.example'' ''key'' []) =
     Inr (JObj [(''data'', JList [JObj [(''url'', JStr ''http_cache/1.png'')]])])
   \<and> \<not> startswith ''http_cache/1.png'' ''http://''
   \<and> \<not> startswith ''http_cache/1.png'' ''https://''
   \<and> \<not> startswith ''http_cache/1.png'' ''data:''
   \<and> ''http_cache/1.png'' \<noteq> ''https://svc.example'' @ ''/'' @ ''http_cache/1.png''"
proof -
  have "invalid_session (JObj [(''images'', JList [JStr ''http_cache/1.png''])]) = Inr False"
    by (simp add: invalid_session_def)
  from generate_scripted_first_try [OF this] show ?thesis
    by (simp add: images_result_def startswith_def)
qed

section \<open>A successful generation\<close>

lemma generate_plain_response:
  assumes "fst (get_swarmui_session_id srv base_url api_key []) = Inr sid" and "truthy sid"
    and "srv 1 = Returns resp" and "status_error resp = None"
    and "body resp = Inr (JObj kvs)"
    and "map_of kvs ''error_id'' \<noteq> Some (JStr ''invalid_session_id'')"
  shows "fst (swarmui_generate_image srv model payload client_id base_url api_key []) =
           Inr (images_result base_url (JObj kvs))"
proof -
  from assms(1,2) have s1: "truthy (session_of (srv 0))"
    by (simp add: session_run)
  have r1: "fetch_json (srv 1) = Inr (JObj kvs)"
    using assms(3-5) by (rule fetch_json_ok)
  have t: "invalid_session (JObj kvs) = Inr False"
    using assms(6) by (cases "map_of kvs ''error_id''") (simp_all add: invalid_session_def)
  show ?thesis
    by (simp add: generate_first_try [of srv, OF s1 r1 t])
qed

text \<open>
  Claim C5, as the code has it. Let the first session acquisition give a usable
  identifier and the generation POST succeed with a body that is a JSON object without
  the expiry signal. If the object has no \<^verbatim>\<open>images\<close> field, the call returns
  \<^verbatim>\<open>{"data": []}\<close>; if the field is a list of strings, the call returns
  \<^verbatim>\<open>{"data": images}\<close> with as many images as the list has entries.
\<close>

theorem generate_returns_images:
  assumes "fst (get_swarmui_session_id srv base_url api_key []) = Inr sid" and "truthy sid"
    and "srv 1 = Returns resp" and "status_error resp = None"
    and "body resp = Inr (JObj kvs)"
    and "map_of kvs ''error_id'' \<noteq> Some (JStr ''invalid_session_id'')"
  shows "(map_of kvs ''images'' = None \<longrightarrow>
            fst (swarmui_generate_image srv model payload client_id base_url api_key []) =
              Inr (JObj [(''data'', JList [])]))
       \<and> (\<forall>ps. map_of kvs ''images'' = Some (JList (map JStr ps)) \<longrightarrow>
            (\<exists>images.
               fst (swarmui_generate_image srv model payload client_id base_url api_key []) =
                 Inr (JObj [(''data'', JList images)])
             \<and> length images = length ps))"
  unfolding generate_plain_response [OF assms]
  by (simp add: images_result_def collect_images_strings)

theorem generate_returns_images_witness:
  "fst (swarmui_generate_image
          (scripted [ok (JObj [(''session_id'', JStr ''s1'')]),
                     ok (JObj [(''images'', JList [JStr ''outputs/1.png''])])])
          ''sdxl'' example_form ''c1'' ''https://svc.example'' ''key'' []) =
     Inr (JObj [(''data'', JList [JObj [(''url'', JStr ''https://svc.example/outputs/1.png'')]])])
   \<and> fst (swarmui_generate_image
          (scripted [ok (JObj [(''session_id'', JStr ''s1'')]), ok (JObj [])])
          ''sdxl'' example_form ''c1'' ''https://svc.example'' ''key'' []) =
     Inr (JObj [(''data'', JList [])])"
proof -
  let ?s0 = "ok (JObj [(''session_id'', JStr ''s1'')])"
  have a: "fst (get_swarmui_session_id (scripted [?s0, out]) ''https://svc.example'' ''key'' []) =
      Inr (JStr ''s1'')" for out
    by (simp add: session_run scripted_session)
  have b: "truthy (JStr ''s1'')"
    by simp
  have c: "scripted [?s0, ok v] 1 = Returns (Response 200 ''OK'' (Inr v))" for v
    by (simp add: scripted_def ok_def)
  have d: "status_error (Response 200 ''OK'' (Inr v)) = None"
    and e: "body (Response 200 ''OK'' (Inr v)) = Inr v" for v :: json
    by (simp_all add: status_error_def refused_status_def)
  have f1: "map_of [(''images'', JList [JStr ''outputs/1.png''])] ''error_id'' \<noteq>
      Some (JStr ''invalid_session_id'')"
    and f2: "map_of ([]::(string \<times> json) list) ''error_id'' \<noteq> Some (JStr ''invalid_session_id'')"
    by simp_all
  have g: "map_of [(''images'', JList [JStr ''outputs/1.png''])] ''images'' =
      Some (JList (map JStr [''outputs/1.png'']))"
    by simp
  have first: "\<exists>images.
      fst (swarmui_generate_image
          (scripted [?s0, ok (JObj [(''images'', JList [JStr ''outputs/1.png''])])])
          ''sdxl'' example_form ''c1'' ''https://svc.example'' ''key'' []) =
        Inr (JObj [(''data'', JList images)]) \<and> length images = length [''outputs/1.png'']"
    using generate_returns_images [OF a b c d e f1, of "''sdxl''" example_form "''c1''"] g
    by blast
  have second: "fst (swarmui_generate_image (scripted [?s0, ok (JObj [])])
          ''sdxl'' example_form ''c1'' ''https://svc.example'' ''key'' []) =
     Inr (JObj [(''data'', JList [])])"
    using generate_returns_images [OF a b c d e f2, of "''sdxl''" example_form "''c1''"]
    by simp
  have val1: "fst (swarmui_generate_image
          (scripted [?s0, ok (JObj [(''images'', JList [JStr ''outputs/1.png''])])])
          ''sdxl'' example_form ''c1'' ''https://svc.example'' ''key'' []) =
     Inr (JObj [(''data'', JList [JObj [(''url'', JStr ''https://svc.example/outputs/1.png'')]])])"
    using first
    by (simp add: generate_scripted_first_try invalid_session_def images_result_def
        startswith_def)
  from val1 second show ?thesis ..
qed

text \<open>
  Without the two restrictions the claim fails: an image list with an entry that is not
  a string, and a body that is not a JSON object (so that it has no image list at all),
  both end in the \<^verbatim>\<open>except\<close> branch and the call returns an error.
\<close>

theorem malformed_response_counterexample:
  "fst (swarmui_generate_image
          (scripted [ok (JObj [(''session_id'', JStr ''s1'')]),
                     ok (JObj [(''images'', JList [JInt 1])])])
          ''sdxl'' example_form ''c1'' ''https://svc.example'' ''key'' []) =
     Inr (JObj [(''error'', JStr (exn_str (attribute_error (JInt 1) ''startswith'')))])
   \<and> fst (swarmui_generate_image
          (scripted [ok (JObj [(''session_id'', JStr ''s1'')]), ok (JList [])])
          ''sdxl'' example_form ''c1'' ''https://svc.example'' ''key'' []) =
     Inr (JObj [(''error'', JStr (exn_str (attribute_error (JList []) ''get'')))])"
proof -
  have a: "invalid_session (JObj [(''images'', JList [JInt 1])]) = Inr False"
    and b: "invalid_session (JList []) = Inr False"
    by (simp_all add: invalid_session_def)
  show ?thesis
    by (simp add: generate_scripted_first_try [OF a] generate_scripted_first_try [OF b]
        images_result_def error_result_def)
qed

end
